theory Spec2Isabelle
  imports Complex_Main
begin

section \<open>Tabular input\<close>

text \<open>
  Both programs, \<^verbatim>\<open>video_visualization.py\<close> and \<^verbatim>\<open>visualisation_app.py\<close>, start from
  the data frame that \<^verbatim>\<open>pd.read_csv\<close> returns. A cell of that frame is a missing value,
  a number, or a piece of text. Numbers are modelled as exact reals: rounding of binary
  floating point, infinities and signed zeros are outside the model.
\<close>

datatype field = NaN | Num real | Str string

text \<open>
  A row carries the eight columns the programs read by name and the cells of any further
  column. The type of the tick column and the type of the six measure columns are
  parameters, because cleaning changes them: a raw row has \<open>field\<close> in both places, the
  final-state viewer turns the tick into an integer, and the video script also turns the
  six measures into numbers. The column \<^verbatim>\<open>length\<close> is named \<open>length_col\<close>.
  The header is taken to list the eight columns.
\<close>

record ('t, 'n) row =
  tick_num :: 't
  agent_type :: field
  pos_X :: 'n
  pos_Y :: 'n
  diameter :: 'n
  length_col :: 'n
  orientation_X :: 'n
  orientation_Y :: 'n
  extra :: "field list"

type_synonym raw_row = "(field, field) row"

definition fields_of :: "raw_row \<Rightarrow> field list" where
  "fields_of r = [tick_num r, agent_type r, pos_X r, pos_Y r, diameter r, length_col r,
                  orientation_X r, orientation_Y r] @ extra r"

text \<open>\<^verbatim>\<open>df.dropna()\<close>: a row with a missing value in any column goes.\<close>

definition dropna :: "raw_row list \<Rightarrow> raw_row list" where
  "dropna df = filter (\<lambda>r. NaN \<notin> set (fields_of r)) df"

text \<open>
  \<^verbatim>\<open>df[~df.astype(str).apply(lambda x: x.str.contains('#')).any(axis=1)]\<close>: a row goes when
  the text of any of its cells contains the separator character. The text of a number
  never does.
\<close>

fun contains_hash :: "field \<Rightarrow> bool" where
  "contains_hash (Str s) = (CHR ''#'' \<in> set s)"
| "contains_hash _ = False"

definition drop_separators :: "raw_row list \<Rightarrow> raw_row list" where
  "drop_separators df = filter (\<lambda>r. \<not> list_ex contains_hash (fields_of r)) df"

text \<open>
  \<^verbatim>\<open>pd.to_numeric(col, errors='coerce')\<close>: a number stays, a missing value stays missing,
  and text is read as a number where it can be. How pandas reads text is not part of the
  repository; it is the parameter \<open>num\<close>, and \<open>None\<close> is the result NaN.
\<close>

fun to_numeric :: "(string \<Rightarrow> real option) \<Rightarrow> field \<Rightarrow> real option" where
  "to_numeric num NaN = None"
| "to_numeric num (Num x) = Some x"
| "to_numeric num (Str s) = num s"

text \<open>
  \<^verbatim>\<open>astype(int)\<close> casts the column to 64-bit integers. The cast cuts the fraction off,
  towards zero. It never raises on a number: where the integer part does not fit into 64
  bits the cast still gives a 64-bit integer, and the tick is not the number that was
  read. The model takes the float column that \<^verbatim>\<open>to_numeric\<close> returns for such numbers and
  the value the conversion gives on x86-64, the smallest 64-bit integer; the properties
  below state only that the result is a 64-bit integer, and what it is inside the range.
\<close>

definition towards_zero :: "real \<Rightarrow> int" where
  "towards_zero x = (if 0 \<le> x then \<lfloor>x\<rfloor> else \<lceil>x\<rceil>)"

definition astype_int :: "real \<Rightarrow> int" where
  "astype_int x =
     (let k = towards_zero x
      in if - (2 ^ 63) \<le> k \<and> k < 2 ^ 63 then k else - (2 ^ 63))"

text \<open>
  The three tick lines shared by both loaders: coerce \<^verbatim>\<open>tick_num\<close>, drop the rows where
  that gave NaN, convert to integer.
\<close>

definition convert_tick :: "(string \<Rightarrow> real option) \<Rightarrow> raw_row \<Rightarrow> (int, field) row option" where
  "convert_tick num r =
     (case to_numeric num (tick_num r) of
        None \<Rightarrow> None
      | Some x \<Rightarrow> Some \<lparr>tick_num = astype_int x, agent_type = agent_type r,
                        pos_X = pos_X r, pos_Y = pos_Y r, diameter = diameter r,
                        length_col = length_col r, orientation_X = orientation_X r,
                        orientation_Y = orientation_Y r, extra = extra r\<rparr>)"

text \<open>
  The loop over \<^verbatim>\<open>numeric_columns\<close> followed by \<^verbatim>\<open>df.dropna(subset=numeric_columns)\<close>, which
  only the video script has: each of the six columns is coerced, and a row where any of
  them became NaN goes.
\<close>

definition convert_numeric ::
  "(string \<Rightarrow> real option) \<Rightarrow> (int, field) row \<Rightarrow> (int, real) row option" where
  "convert_numeric num r =
     (case (to_numeric num (pos_X r), to_numeric num (pos_Y r),
            to_numeric num (diameter r), to_numeric num (length_col r),
            to_numeric num (orientation_X r), to_numeric num (orientation_Y r)) of
        (Some x, Some y, Some d, Some l, Some ox, Some oy) \<Rightarrow>
          Some \<lparr>tick_num = tick_num r, agent_type = agent_type r,
                pos_X = x, pos_Y = y, diameter = d, length_col = l,
                orientation_X = ox, orientation_Y = oy, extra = extra r\<rparr>
      | _ \<Rightarrow> None)"

text \<open>The cleaning block of \<^verbatim>\<open>TkinterBiofilmViewer.load_data\<close> (lines 30 to 40).\<close>

definition load_data :: "(string \<Rightarrow> real option) \<Rightarrow> raw_row list \<Rightarrow> (int, field) row list" where
  "load_data num df = List.map_filter (convert_tick num) (drop_separators (dropna df))"

text \<open>The cleaning block of \<^verbatim>\<open>video_visualization.py\<close> (lines 18 to 37).\<close>

definition load_data_video ::
  "(string \<Rightarrow> real option) \<Rightarrow> raw_row list \<Rightarrow> (int, real) row list" where
  "load_data_video num df =
     List.map_filter (convert_numeric num)
       (List.map_filter (convert_tick num) (drop_separators (dropna df)))"

section \<open>Tick index\<close>

text \<open>
  \<^verbatim>\<open>Series.unique()\<close> keeps the first occurrence of each value, in order of appearance;
  \<^verbatim>\<open>sorted\<close> is modelled by the insertion sort \<open>sort\<close> of the list library.
\<close>

fun unique_from :: "'a list \<Rightarrow> 'a list \<Rightarrow> 'a list" where
  "unique_from seen [] = rev seen"
| "unique_from seen (x # xs) =
     (if x \<in> set seen then unique_from seen xs else unique_from (x # seen) xs)"

definition unique :: "'a list \<Rightarrow> 'a list" where
  "unique xs = unique_from [] xs"

definition time_steps :: "(int, 'n) row list \<Rightarrow> int list" where
  "time_steps df = sort (unique (map tick_num df))"

section \<open>Viewport\<close>

datatype error = IndexError

record bounds =
  plot_min_x :: real
  plot_max_x :: real
  plot_min_y :: real
  plot_max_y :: real

text \<open>What the programs print, without the formatting of the numbers.\<close>

datatype message =
    Found nat
  | Time_step_range int int
  | Dynamic_plot_bounds bounds
  | Warning_no_data_in_last_tick
  | Warning_no_time_steps
  | Creating_animation nat
  | Saving_video
  | Video_saved
  | Error_saving_video
  | Trying_alternative_method
  | Animation_saved_as_GIF
  | Error_saving_GIF
  | Showing_animation_in_window
  | Animation_complete

text \<open>
  \<^verbatim>\<open>Series.min()\<close> and \<^verbatim>\<open>Series.max()\<close> of a column without missing values. Both are
  only called on the rows of a tick that has rows.
\<close>

fun col_min :: "real list \<Rightarrow> real" where
  "col_min (x # xs) = fold min xs x"

fun col_max :: "real list \<Rightarrow> real" where
  "col_max (x # xs) = fold max xs x"

text \<open>
  The bounds block, the same text at module level in the video script (lines 48 to 79)
  and in \<^verbatim>\<open>setup_plot_bounds\<close> of the viewer, on numeric columns. The result is the four
  bounds and the line printed.
\<close>

definition setup_plot_bounds :: "(int, real) row list \<Rightarrow> int list \<Rightarrow> bounds \<times> message" where
  "setup_plot_bounds df steps =
     (if steps \<noteq> [] then
        let last_tick = last steps;
            last_tick_data = filter (\<lambda>r. tick_num r = last_tick) df
        in if last_tick_data \<noteq> [] then
             let min_x = col_min (map pos_X last_tick_data);
                 max_x = col_max (map pos_X last_tick_data);
                 min_y = col_min (map pos_Y last_tick_data);
                 max_y = col_max (map pos_Y last_tick_data);
                 max_diameter = col_max (map diameter last_tick_data);
                 max_length = col_max (map length_col last_tick_data);
                 padding = max max_diameter max_length * 2;
                 b = \<lparr>plot_min_x = min_x - padding, plot_max_x = max_x + padding,
                      plot_min_y = min_y - padding, plot_max_y = max_y + padding\<rparr>
             in (b, Dynamic_plot_bounds b)
           else (\<lparr>plot_min_x = 0, plot_max_x = 100, plot_min_y = 0, plot_max_y = 100\<rparr>,
                 Warning_no_data_in_last_tick)
      else (\<lparr>plot_min_x = 0, plot_max_x = 100, plot_min_y = 0, plot_max_y = 100\<rparr>,
            Warning_no_time_steps))"

section \<open>Geometry\<close>

text \<open>
  \<^verbatim>\<open>matplotlib.transforms.Affine2D\<close>: the first two rows of the matrix. \<open>rotate_rad\<close> and
  \<open>translate\<close> follow the library's methods \<^verbatim>\<open>rotate\<close> and \<^verbatim>\<open>translate\<close>: each of them changes the
  transform so that the new operation applies after the ones already there.
\<close>

datatype Affine2D = Mtx real real real real real real

definition identity :: Affine2D where
  "identity = Mtx 1 0 0 0 1 0"

fun rotate_rad :: "real \<Rightarrow> Affine2D \<Rightarrow> Affine2D" where
  "rotate_rad theta (Mtx xx xy x0 yx yy y0) =
     (let a = cos theta; b = sin theta
      in Mtx (a * xx - b * yx) (a * xy - b * yy) (a * x0 - b * y0)
             (b * xx + a * yx) (b * xy + a * yy) (b * x0 + a * y0))"

definition rotate_deg :: "real \<Rightarrow> Affine2D \<Rightarrow> Affine2D" where
  "rotate_deg deg t = rotate_rad (deg * pi / 180) t"

fun translate :: "real \<Rightarrow> real \<Rightarrow> Affine2D \<Rightarrow> Affine2D" where
  "translate tx ty (Mtx xx xy x0 yx yy y0) = Mtx xx xy (x0 + tx) yx yy (y0 + ty)"

fun transform_point :: "Affine2D \<Rightarrow> real \<times> real \<Rightarrow> real \<times> real" where
  "transform_point (Mtx xx xy x0 yx yy y0) (x, y) = (xx * x + xy * y + x0, yx * x + yy * y + y0)"

text \<open>\<^verbatim>\<open>np.arctan2(y, x)\<close>, the angle of the vector \<open>(x, y)\<close> in \<open>(-\<pi>, \<pi>]\<close>, and \<^verbatim>\<open>np.degrees\<close>.\<close>

definition arctan2 :: "real \<Rightarrow> real \<Rightarrow> real" where
  "arctan2 y x =
     (if 0 < x then arctan (y / x)
      else if x < 0 then (if 0 \<le> y then arctan (y / x) + pi else arctan (y / x) - pi)
      else if 0 < y then pi / 2
      else if y < 0 then - (pi / 2)
      else 0)"

definition degrees :: "real \<Rightarrow> real" where
  "degrees x = x * 180 / pi"

text \<open>
  A patch is a shape in its own coordinates and the transform that places it in data
  coordinates. \<^verbatim>\<open>ax.transData\<close>, which maps data coordinates to the screen and is the same
  for all patches, is left out; a patch created without a transform has the identity.
  \<open>FancyBboxPatch (x, y) w h\<close> with \<^verbatim>\<open>boxstyle="round,pad=0"\<close> is the plain box with corner
  \<open>(x, y)\<close>, width \<open>w\<close> and height \<open>h\<close>. Colours are not modelled.
\<close>

datatype shape = Circle "real \<times> real" real | FancyBboxPatch "real \<times> real" real real

record patch =
  shape :: shape
  transform :: Affine2D

text \<open>The body of the loop over \<^verbatim>\<open>eps.iterrows()\<close> (lines 116 to 121).\<close>

definition eps_circle :: "(int, real) row \<Rightarrow> patch" where
  "eps_circle eps_particle =
     (let radius = diameter eps_particle / 2
      in \<lparr>shape = Circle (pos_X eps_particle, pos_Y eps_particle) radius,
          transform = identity\<rparr>)"

text \<open>
  The body of the loop over \<^verbatim>\<open>cells.iterrows()\<close> (lines 126 to 144); the loop in
  \<^verbatim>\<open>plot_final_state\<close> of the viewer (lines 156 to 183) computes the same patches.
\<close>

definition cell_transform :: "(int, real) row \<Rightarrow> Affine2D" where
  "cell_transform cell =
     (let angle = arctan2 (orientation_Y cell) (orientation_X cell);
          angle_deg = degrees angle
      in translate (pos_X cell) (pos_Y cell) (rotate_deg angle_deg identity))"

definition cell_shapes :: "(int, real) row \<Rightarrow> patch list" where
  "cell_shapes cell =
     (let w = diameter cell; l = length_col cell;
          rect_len = l - w; rect_w = w; r = w / 2;
          rect = FancyBboxPatch (- rect_len / 2, - rect_w / 2) rect_len rect_w;
          left_cap = Circle (- rect_len / 2, 0) r;
          right_cap = Circle (rect_len / 2, 0) r;
          t = cell_transform cell
      in [\<lparr>shape = rect, transform = t\<rparr>,
          \<lparr>shape = left_cap, transform = t\<rparr>,
          \<lparr>shape = right_cap, transform = t\<rparr>])"

section \<open>Frames\<close>

text \<open>
  \<^verbatim>\<open>animate(frame)\<close> clears the patches of the previous frame, so what is on the axes after
  the call is what the call drew: the discs of the EPS particles, then three patches for
  each cell, under a title that names the tick. \<^verbatim>\<open>time_steps[frame]\<close> raises for an index
  past the end.
\<close>

record frame =
  title_tick :: int
  eps_patches :: "patch list"
  cell_patches :: "patch list"

definition animate :: "(int, real) row list \<Rightarrow> int list \<Rightarrow> nat \<Rightarrow> error + frame" where
  "animate df steps n =
     (if n < length steps then
        let tick = steps ! n;
            tick_data = filter (\<lambda>r. tick_num r = tick) df;
            cells = filter (\<lambda>r. agent_type r = Str ''cell'') tick_data;
            eps = filter (\<lambda>r. agent_type r = Str ''eps'') tick_data
        in Inr \<lparr>title_tick = tick,
                eps_patches = map eps_circle eps,
                cell_patches = concat (map cell_shapes cells)\<rparr>
      else Inl IndexError)"

text \<open>
  \<^verbatim>\<open>FuncAnimation(fig, animate, frames=len(time_steps))\<close> calls \<^verbatim>\<open>animate\<close> with
  \<open>0, 1, \<dots>, len(time_steps) - 1\<close> in this order when the animation is saved; the first
  error ends the run.
\<close>

fun run_frames :: "(nat \<Rightarrow> error + frame) \<Rightarrow> nat list \<Rightarrow> error + frame list" where
  "run_frames f [] = Inr []"
| "run_frames f (n # ns) =
     (case f n of
        Inl e \<Rightarrow> Inl e
      | Inr fr \<Rightarrow> (case run_frames f ns of Inl e \<Rightarrow> Inl e | Inr frs \<Rightarrow> Inr (fr # frs)))"

definition FuncAnimation :: "(int, real) row list \<Rightarrow> int list \<Rightarrow> error + frame list" where
  "FuncAnimation df steps = run_frames (animate df steps) [0 ..< length steps]"

section \<open>The video script\<close>

text \<open>
  Line 2 of the script selects the backend \<^verbatim>\<open>Agg\<close>, which draws into memory and has no
  window: under it \<^verbatim>\<open>plt.show()\<close> displays nothing. \<open>GUI\<close> stands for any backend with a
  window.
\<close>

datatype backend = Agg | GUI

datatype sink = Mp4 "frame list" | Gif "frame list" | Window | Nothing

definition plt_show :: "backend \<Rightarrow> sink" where
  "plt_show b = (if b = Agg then Nothing else Window)"

text \<open>
  The nested \<^verbatim>\<open>try\<close> blocks of lines 160 to 181. Whether the ffmpeg writer and the pillow
  writer work on the machine is not decided by the script: \<open>ffmpeg_ok\<close> and \<open>pillow_ok\<close>
  are parameters. \<^verbatim>\<open>anim.save\<close> is what calls \<^verbatim>\<open>animate\<close>, so an error of \<^verbatim>\<open>animate\<close> is
  caught like an error of the writer.
\<close>

definition save_animation ::
  "backend \<Rightarrow> bool \<Rightarrow> bool \<Rightarrow> error + frame list \<Rightarrow> message list \<times> sink" where
  "save_animation b ffmpeg_ok pillow_ok anim =
     (case (ffmpeg_ok, anim) of
        (True, Inr frs) \<Rightarrow> ([Video_saved], Mp4 frs)
      | _ \<Rightarrow>
         (case (pillow_ok, anim) of
            (True, Inr frs) \<Rightarrow>
              ([Error_saving_video, Trying_alternative_method, Animation_saved_as_GIF], Gif frs)
          | _ \<Rightarrow>
              ([Error_saving_video, Trying_alternative_method, Error_saving_GIF,
                Showing_animation_in_window], plt_show b)))"

record run =
  printed :: "message list"
  limits :: bounds
  shown :: sink

text \<open>
  The script from the cleaned frame on (lines 44 to 183). Line 46 reads \<^verbatim>\<open>time_steps[0]\<close>
  and \<^verbatim>\<open>time_steps[-1]\<close> before the test \<^verbatim>\<open>if time_steps:\<close> of line 48, and raises on the
  empty list; nothing catches it.
\<close>

definition video_visualization ::
  "(string \<Rightarrow> real option) \<Rightarrow> bool \<Rightarrow> bool \<Rightarrow> raw_row list \<Rightarrow> error + run" where
  "video_visualization num ffmpeg_ok pillow_ok csv =
     (let df = load_data_video num csv;
          steps = time_steps df
      in if steps = [] then Inl IndexError
         else
           let (b, line) = setup_plot_bounds df steps;
               anim = FuncAnimation df steps;
               (lines, out) = save_animation Agg ffmpeg_ok pillow_ok anim
           in Inr \<lparr>printed = [Found (length steps), Time_step_range (hd steps) (last steps),
                               line, Creating_animation (length steps), Saving_video]
                              @ lines @ [Animation_complete],
                   limits = b, shown = out\<rparr>)"

section \<open>Measuring shapes\<close>

text \<open>
  The points a shape covers, in the shape's own coordinates: a disc, and a box between
  its two pairs of opposite edges.
\<close>

fun covers :: "shape \<Rightarrow> real \<times> real \<Rightarrow> bool" where
  "covers (Circle (cx, cy) r) (x, y) = ((x - cx)\<^sup>2 + (y - cy)\<^sup>2 \<le> r\<^sup>2)"
| "covers (FancyBboxPatch (x0, y0) w h) (x, y) =
     (min x0 (x0 + w) \<le> x \<and> x \<le> max x0 (x0 + w) \<and> min y0 (y0 + h) \<le> y \<and> y \<le> max y0 (y0 + h))"

definition capsule_covers :: "(int, real) row \<Rightarrow> real \<times> real \<Rightarrow> bool" where
  "capsule_covers cell p = list_ex (\<lambda>q. covers (shape q) p) (cell_shapes cell)"

text \<open>The interval a shape occupies along its first and along its second coordinate.\<close>

fun span_x :: "shape \<Rightarrow> real \<times> real" where
  "span_x (Circle (cx, cy) r) = (cx - \<bar>r\<bar>, cx + \<bar>r\<bar>)"
| "span_x (FancyBboxPatch (x0, y0) w h) = (min x0 (x0 + w), max x0 (x0 + w))"

fun span_y :: "shape \<Rightarrow> real \<times> real" where
  "span_y (Circle (cx, cy) r) = (cy - \<bar>r\<bar>, cy + \<bar>r\<bar>)"
| "span_y (FancyBboxPatch (x0, y0) w h) = (min y0 (y0 + h), max y0 (y0 + h))"

text \<open>
  The three patches of a cell share one transform, which keeps distances, so the capsule
  is measured in its own coordinates: from end to end along the first, across along the
  second.
\<close>

definition end_to_end_length :: "patch list \<Rightarrow> real" where
  "end_to_end_length ps =
     col_max (map (\<lambda>q. snd (span_x (shape q))) ps) - col_min (map (\<lambda>q. fst (span_x (shape q))) ps)"

definition overall_width :: "patch list \<Rightarrow> real" where
  "overall_width ps =
     col_max (map (\<lambda>q. snd (span_y (shape q))) ps) - col_min (map (\<lambda>q. fst (span_y (shape q))) ps)"

fun centre :: "shape \<Rightarrow> real \<times> real" where
  "centre (Circle c r) = c"
| "centre (FancyBboxPatch (x0, y0) w h) = (x0 + w / 2, y0 + h / 2)"

section \<open>Sample inputs\<close>

text \<open>
  A reading of text as a number, to put in the place of \<open>num\<close> on concrete inputs: a
  non-empty string of decimal digits is the natural number it writes, anything else is
  not a number.
\<close>

definition digit :: "char \<Rightarrow> nat option" where
  "digit c = (if c \<in> set ''0123456789'' then Some (of_char c - 48) else None)"

fun digits :: "nat \<Rightarrow> string \<Rightarrow> nat option" where
  "digits acc [] = Some acc"
| "digits acc (c # cs) = (case digit c of None \<Rightarrow> None | Some d \<Rightarrow> digits (10 * acc + d) cs)"

definition decimal :: "string \<Rightarrow> real option" where
  "decimal s = (if s = [] then None else map_option real (digits 0 s))"

definition agent ::
  "'t \<Rightarrow> string \<Rightarrow> 'n \<Rightarrow> 'n \<Rightarrow> 'n \<Rightarrow> 'n \<Rightarrow> 'n \<Rightarrow> 'n \<Rightarrow> ('t, 'n) row" where
  "agent t a x y d l ox oy =
     \<lparr>tick_num = t, agent_type = Str a, pos_X = x, pos_Y = y, diameter = d, length_col = l,
      orientation_X = ox, orientation_Y = oy, extra = []\<rparr>"

text \<open>
  The two ticks of the scenario: one cell of diameter 1 and length 3, at the origin and
  heading along X at tick 0, at \<open>(5, 0)\<close> and heading along Y at tick 1. The row of tick 1
  comes first in the frame.
\<close>

definition two_ticks :: "(int, real) row list" where
  "two_ticks = [agent 1 ''cell'' 5 0 1 3 0 1, agent 0 ''cell'' 0 0 1 3 1 0]"

text \<open>
  Three cells: one as long as it is wide, one shorter than it is wide, and the rod of the
  scenario.
\<close>

definition round_cell :: "(int, real) row" where
  "round_cell = agent 0 ''cell'' 1 2 4 4 1 0"

definition short_cell :: "(int, real) row" where
  "short_cell = agent 0 ''cell'' 0 0 2 1 1 0"

definition rod_cell :: "(int, real) row" where
  "rod_cell = agent 0 ''cell'' 0 0 1 3 1 0"


text \<open>
  Rows as \<^verbatim>\<open>read_csv\<close> gives them when the columns hold text: a separator line, a particle
  of diameter 0, a cell whose \<^verbatim>\<open>pos_X\<close> is not a number, and the two rows of the scenario.
\<close>

definition separator_row :: raw_row where
  "separator_row =
     \<lparr>tick_num = Str ''#####'', agent_type = NaN, pos_X = NaN, pos_Y = NaN, diameter = NaN,
      length_col = NaN, orientation_X = NaN, orientation_Y = NaN, extra = []\<rparr>"

definition flat_row :: raw_row where
  "flat_row = agent (Str ''7'') ''eps'' (Str ''1'') (Str ''2'') (Str ''0'') (Str ''0'')
                (Str ''0'') (Str ''0'')"

definition garbled_row :: raw_row where
  "garbled_row = agent (Str ''0'') ''cell'' (Str ''abc'') (Str ''0'') (Str ''1'') (Str ''3'')
                   (Str ''1'') (Str ''0'')"

definition two_ticks_csv :: "raw_row list" where
  "two_ticks_csv =
     [agent (Str ''1'') ''cell'' (Str ''5'') (Str ''0'') (Str ''1'') (Str ''3'') (Str ''0'') (Str ''1''),
      separator_row,
      agent (Str ''0'') ''cell'' (Str ''0'') (Str ''0'') (Str ''1'') (Str ''3'') (Str ''1'') (Str ''0'')]"

section \<open>Properties of the tick index\<close>

lemma set_unique_from: "set (unique_from seen xs) = set seen \<union> set xs"
  by (induction xs arbitrary: seen) auto

lemma distinct_unique_from: "distinct seen \<Longrightarrow> distinct (unique_from seen xs)"
  by (induction xs arbitrary: seen) auto

lemma set_unique: "set (unique xs) = set xs"
  by (simp add: unique_def set_unique_from)

lemma distinct_unique: "distinct (unique xs)"
  by (simp add: unique_def distinct_unique_from)

lemma time_steps_eq: "time_steps df = sorted_list_of_set (tick_num ` set df)"
proof -
  have "sort (unique (map tick_num df)) = sorted_list_of_set (set (unique (map tick_num df)))"
    by (simp add: sorted_list_of_set_sort_remdups distinct_unique distinct_remdups_id)
  then show ?thesis
    by (simp add: time_steps_def set_unique)
qed

text \<open>
  Claim C5. Whatever the order and the repetitions of the tick values in the record
  collection, the tick sequence is strictly increasing, has no duplicates and holds
  exactly the ticks that occur; the empty collection gives the empty sequence.
\<close>

theorem time_steps_strictly_increasing:
  "sorted_wrt (<) (time_steps df) \<and> distinct (time_steps df)
   \<and> set (time_steps df) = tick_num ` set df
   \<and> time_steps ([] :: (int, 'n) row list) = []"
proof -
  have "sorted_wrt (<) (time_steps df)"
    unfolding time_steps_eq by (rule strict_sorted_list_of_set)
  moreover have "distinct (time_steps df)"
    unfolding time_steps_eq by simp
  moreover have "set (time_steps df) = tick_num ` set df"
    unfolding time_steps_eq by simp
  moreover have "time_steps ([] :: (int, 'n) row list) = []"
    by (simp add: time_steps_def unique_def)
  ultimately show ?thesis by blast
qed

section \<open>Properties of the geometry\<close>

lemma rotate_deg_degrees: "rotate_deg (degrees a) t = rotate_rad a t"
  by (simp add: rotate_deg_def degrees_def)

lemma cell_transform_eq:
  "cell_transform c =
     translate (pos_X c) (pos_Y c)
       (rotate_rad (arctan2 (orientation_Y c) (orientation_X c)) identity)"
  by (simp add: cell_transform_def Let_def rotate_deg_degrees)

lemma transform_point_cell:
  "transform_point (cell_transform c) (x, y) =
     (cos (arctan2 (orientation_Y c) (orientation_X c)) * x
        - sin (arctan2 (orientation_Y c) (orientation_X c)) * y + pos_X c,
      sin (arctan2 (orientation_Y c) (orientation_X c)) * x
        + cos (arctan2 (orientation_Y c) (orientation_X c)) * y + pos_Y c)"
  by (simp add: cell_transform_eq identity_def Let_def)

lemma shapes_of_cell:
  "map shape (cell_shapes c) =
     [FancyBboxPatch (- (length_col c - diameter c) / 2, - diameter c / 2)
        (length_col c - diameter c) (diameter c),
      Circle (- (length_col c - diameter c) / 2, 0) (diameter c / 2),
      Circle ((length_col c - diameter c) / 2, 0) (diameter c / 2)]"
  by (simp add: cell_shapes_def Let_def field_simps)

lemma transforms_of_cell:
  "map transform (cell_shapes c) = [cell_transform c, cell_transform c, cell_transform c]"
  by (simp add: cell_shapes_def Let_def)

lemma time_steps_two_ticks: "time_steps two_ticks = [0, 1]"
  by (simp add: time_steps_def two_ticks_def agent_def unique_def)

lemma arctan2_along_X: "arctan2 0 1 = 0"
  by (simp add: arctan2_def)

lemma arctan2_along_Y: "arctan2 1 0 = pi / 2"
  by (simp add: arctan2_def)

text \<open>
  Claim C1. The three patches of a cell are built around the origin of their own frame,
  the body centred there and the two caps centred on the first axis on either side, and
  all three carry one transform: the rotation by \<open>arctan2 orientation_Y orientation_X\<close>
  applied first, the translation to the position applied second, so that a point
  \<open>(x, y)\<close> of the frame lands at the rotated point moved by the position. In the
  scenario of two ticks, frame 0 shows the capsule of half-length 1 under the rotation by
  0 and the translation to \<open>(0, 0)\<close>, and frame 1 shows it under the rotation by \<open>\<pi>/2\<close>
  and the translation to \<open>(5, 0)\<close>; the centre of the frame lands at \<open>(0, 0)\<close> and at
  \<open>(5, 0)\<close>.
\<close>

theorem capsule_rotate_then_translate:
  "map transform (cell_shapes c) = [cell_transform c, cell_transform c, cell_transform c]
   \<and> map (\<lambda>q. centre (shape q)) (cell_shapes c) =
       [(0, 0), (- (length_col c - diameter c) / 2, 0), ((length_col c - diameter c) / 2, 0)]
   \<and> cell_transform c =
       translate (pos_X c) (pos_Y c)
         (rotate_rad (arctan2 (orientation_Y c) (orientation_X c)) identity)
   \<and> transform_point (cell_transform c) (x, y) =
       (cos (arctan2 (orientation_Y c) (orientation_X c)) * x
          - sin (arctan2 (orientation_Y c) (orientation_X c)) * y + pos_X c,
        sin (arctan2 (orientation_Y c) (orientation_X c)) * x
          + cos (arctan2 (orientation_Y c) (orientation_X c)) * y + pos_Y c)
   \<and> animate two_ticks (time_steps two_ticks) 0 =
       Inr \<lparr>title_tick = 0, eps_patches = [],
            cell_patches =
              [\<lparr>shape = FancyBboxPatch (- 1, - (1 / 2)) 2 1,
                transform = translate 0 0 (rotate_rad 0 identity)\<rparr>,
               \<lparr>shape = Circle (- 1, 0) (1 / 2), transform = translate 0 0 (rotate_rad 0 identity)\<rparr>,
               \<lparr>shape = Circle (1, 0) (1 / 2), transform = translate 0 0 (rotate_rad 0 identity)\<rparr>]\<rparr>
   \<and> animate two_ticks (time_steps two_ticks) 1 =
       Inr \<lparr>title_tick = 1, eps_patches = [],
            cell_patches =
              [\<lparr>shape = FancyBboxPatch (- 1, - (1 / 2)) 2 1,
                transform = translate 5 0 (rotate_rad (pi / 2) identity)\<rparr>,
               \<lparr>shape = Circle (- 1, 0) (1 / 2),
                transform = translate 5 0 (rotate_rad (pi / 2) identity)\<rparr>,
               \<lparr>shape = Circle (1, 0) (1 / 2),
                transform = translate 5 0 (rotate_rad (pi / 2) identity)\<rparr>]\<rparr>
   \<and> transform_point (translate 0 0 (rotate_rad 0 identity)) (0, 0) = (0, 0)
   \<and> transform_point (translate 5 0 (rotate_rad (pi / 2) identity)) (0, 0) = (5, 0)"
proof -
  have centres: "map (\<lambda>q. centre (shape q)) (cell_shapes c) =
       [(0, 0), (- (length_col c - diameter c) / 2, 0), ((length_col c - diameter c) / 2, 0)]"
    by (simp add: cell_shapes_def Let_def field_simps)
  have t0: "cell_transform (agent 0 ''cell'' 0 0 1 3 1 0) = translate 0 0 (rotate_rad 0 identity)"
    by (simp add: cell_transform_eq agent_def arctan2_along_X)
  have t1: "cell_transform (agent 1 ''cell'' 5 0 1 3 0 1) = translate 5 0 (rotate_rad (pi / 2) identity)"
    by (simp add: cell_transform_eq agent_def arctan2_along_Y)
  have s0: "cell_shapes (agent 0 ''cell'' 0 0 1 3 1 0) =
      [\<lparr>shape = FancyBboxPatch (- 1, - (1 / 2)) 2 1,
                transform = translate 0 0 (rotate_rad 0 identity)\<rparr>,
               \<lparr>shape = Circle (- 1, 0) (1 / 2), transform = translate 0 0 (rotate_rad 0 identity)\<rparr>,
               \<lparr>shape = Circle (1, 0) (1 / 2), transform = translate 0 0 (rotate_rad 0 identity)\<rparr>]"
    unfolding cell_shapes_def t0 by (simp add: agent_def Let_def)
  have s1: "cell_shapes (agent 1 ''cell'' 5 0 1 3 0 1) =
      [\<lparr>shape = FancyBboxPatch (- 1, - (1 / 2)) 2 1,
                transform = translate 5 0 (rotate_rad (pi / 2) identity)\<rparr>,
               \<lparr>shape = Circle (- 1, 0) (1 / 2),
                transform = translate 5 0 (rotate_rad (pi / 2) identity)\<rparr>,
               \<lparr>shape = Circle (1, 0) (1 / 2),
                transform = translate 5 0 (rotate_rad (pi / 2) identity)\<rparr>]"
    unfolding cell_shapes_def t1 by (simp add: agent_def Let_def)
  have f0: "filter (\<lambda>r. tick_num r = 0 \<and> agent_type r = Str ''cell'') two_ticks
            = [agent 0 ''cell'' 0 0 1 3 1 0]"
       "filter (\<lambda>r. tick_num r = 0 \<and> agent_type r = Str ''eps'') two_ticks = []"
    by (simp_all add: two_ticks_def agent_def)
  have f1: "filter (\<lambda>r. tick_num r = 1 \<and> agent_type r = Str ''cell'') two_ticks
            = [agent 1 ''cell'' 5 0 1 3 0 1]"
       "filter (\<lambda>r. tick_num r = 1 \<and> agent_type r = Str ''eps'') two_ticks = []"
    by (simp_all add: two_ticks_def agent_def)
  have a0: "animate two_ticks (time_steps two_ticks) 0 =
       Inr \<lparr>title_tick = 0, eps_patches = [],
            cell_patches = cell_shapes (agent 0 ''cell'' 0 0 1 3 1 0)\<rparr>"
    by (simp add: animate_def time_steps_two_ticks Let_def f0)
  have a1: "animate two_ticks (time_steps two_ticks) 1 =
       Inr \<lparr>title_tick = 1, eps_patches = [],
            cell_patches = cell_shapes (agent 1 ''cell'' 5 0 1 3 0 1)\<rparr>"
    by (simp add: animate_def time_steps_two_ticks Let_def f1)
  have p0: "transform_point (translate 0 0 (rotate_rad 0 identity)) (0, 0) = (0, 0)"
    by (simp add: identity_def)
  have p1: "transform_point (translate 5 0 (rotate_rad (pi / 2) identity)) (0, 0) = (5, 0)"
    by (simp add: identity_def)
  show ?thesis
    using transforms_of_cell [of c] centres cell_transform_eq [of c] transform_point_cell [of c x y]
      a0 a1 p0 p1
    unfolding s0 s1 by blast
qed

lemma cell_transform_keeps_distance:
  assumes "transform_point (cell_transform c) (x, y) = (x', y')"
    and "transform_point (cell_transform c) (u, v) = (u', v')"
  shows "(x' - u')\<^sup>2 + (y' - v')\<^sup>2 = (x - u)\<^sup>2 + (y - v)\<^sup>2"
proof -
  define co where "co = cos (arctan2 (orientation_Y c) (orientation_X c))"
  define si where "si = sin (arctan2 (orientation_Y c) (orientation_X c))"
  have cs: "co\<^sup>2 + si\<^sup>2 = 1" by (simp add: co_def si_def)
  have "x' - u' = co * (x - u) - si * (y - v)" "y' - v' = si * (x - u) + co * (y - v)"
    using assms by (simp_all add: transform_point_cell co_def si_def algebra_simps)
  then have "(x' - u')\<^sup>2 + (y' - v')\<^sup>2 =
      (co * (x - u) - si * (y - v))\<^sup>2 + (si * (x - u) + co * (y - v))\<^sup>2"
    by (simp only:)
  also have "\<dots> = (co\<^sup>2 + si\<^sup>2) * ((x - u)\<^sup>2 + (y - v)\<^sup>2)"
    by (simp add: power2_eq_square algebra_simps)
  finally show ?thesis by (simp add: cs)
qed

lemma origin_to_position: "transform_point (cell_transform c) (0, 0) = (pos_X c, pos_Y c)"
  by (simp add: transform_point_cell)

lemma capsule_covers_iff:
  "capsule_covers c p \<longleftrightarrow>
     covers (FancyBboxPatch (- (length_col c - diameter c) / 2, - diameter c / 2)
        (length_col c - diameter c) (diameter c)) p
     \<or> covers (Circle (- (length_col c - diameter c) / 2, 0) (diameter c / 2)) p
     \<or> covers (Circle ((length_col c - diameter c) / 2, 0) (diameter c / 2)) p"
proof -
  have "capsule_covers c p = list_ex (\<lambda>s. covers s p) (map shape (cell_shapes c))"
    by (simp add: capsule_covers_def list_ex_iff)
  then show ?thesis
    by (simp only: shapes_of_cell list_ex_Nil_iff list_ex_Cons_iff simp_thms)
qed

lemma square_le_half: "y\<^sup>2 \<le> (d / 2)\<^sup>2 \<longleftrightarrow> \<bar>y\<bar> \<le> \<bar>d\<bar> / 2" for y d :: real
proof -
  have "y\<^sup>2 \<le> (d / 2)\<^sup>2 \<longleftrightarrow> \<bar>y\<bar> \<le> \<bar>d / 2\<bar>"
    by (rule abs_le_square_iff [symmetric])
  then show ?thesis by simp
qed

text \<open>
  Claim C8. A cell whose length equals its diameter gets a body of length 0, that is of
  half-length 0, and two caps of radius half the diameter, both centred at the origin of
  the frame, which the transform places at the position of the record. The points the
  three patches cover are those of the one disc, and in data coordinates they are the
  points within half the diameter of the position.
\<close>

theorem equal_length_and_diameter_gives_disc:
  assumes "length_col c = diameter c"
  shows "map shape (cell_shapes c) =
           [FancyBboxPatch (0, - diameter c / 2) 0 (diameter c),
            Circle (0, 0) (diameter c / 2), Circle (0, 0) (diameter c / 2)]
         \<and> map transform (cell_shapes c) = [cell_transform c, cell_transform c, cell_transform c]
         \<and> transform_point (cell_transform c) (0, 0) = (pos_X c, pos_Y c)
         \<and> (capsule_covers c (x, y) \<longleftrightarrow> covers (Circle (0, 0) (diameter c / 2)) (x, y))
         \<and> (capsule_covers c (x, y) \<longleftrightarrow>
              (fst (transform_point (cell_transform c) (x, y)) - pos_X c)\<^sup>2
              + (snd (transform_point (cell_transform c) (x, y)) - pos_Y c)\<^sup>2
              \<le> (diameter c / 2)\<^sup>2)"
proof -
  have shapes: "map shape (cell_shapes c) =
           [FancyBboxPatch (0, - diameter c / 2) 0 (diameter c),
            Circle (0, 0) (diameter c / 2), Circle (0, 0) (diameter c / 2)]"
    using assms by (simp add: shapes_of_cell)
  have local: "capsule_covers c (x, y) \<longleftrightarrow> covers (Circle (0, 0) (diameter c / 2)) (x, y)"
  proof -
    have "x = 0 \<and> min (- diameter c / 2) (- diameter c / 2 + diameter c) \<le> y
            \<and> y \<le> max (- diameter c / 2) (- diameter c / 2 + diameter c)
          \<Longrightarrow> x\<^sup>2 + y\<^sup>2 \<le> (diameter c / 2)\<^sup>2"
    proof -
      assume h: "x = 0 \<and> min (- diameter c / 2) (- diameter c / 2 + diameter c) \<le> y
            \<and> y \<le> max (- diameter c / 2) (- diameter c / 2 + diameter c)"
      then have "\<bar>y\<bar> \<le> \<bar>diameter c\<bar> / 2" by (auto simp: min_def max_def split: if_splits)
      then have "y\<^sup>2 \<le> (diameter c / 2)\<^sup>2" by (simp add: square_le_half)
      with h show ?thesis by simp
    qed
    then show ?thesis
      using assms by (auto simp add: capsule_covers_iff)
  qed
  obtain x' y' where t: "transform_point (cell_transform c) (x, y) = (x', y')"
    by (cases "transform_point (cell_transform c) (x, y)")
  have "(x' - pos_X c)\<^sup>2 + (y' - pos_Y c)\<^sup>2 = (x - 0)\<^sup>2 + (y - 0)\<^sup>2"
    by (rule cell_transform_keeps_distance [OF t origin_to_position])
  then have world: "covers (Circle (0, 0) (diameter c / 2)) (x, y) \<longleftrightarrow>
              (fst (transform_point (cell_transform c) (x, y)) - pos_X c)\<^sup>2
              + (snd (transform_point (cell_transform c) (x, y)) - pos_Y c)\<^sup>2
              \<le> (diameter c / 2)\<^sup>2"
    by (simp add: t)
  show ?thesis
    using shapes transforms_of_cell [of c] origin_to_position [of c] local world by blast
qed

theorem equal_length_and_diameter_gives_disc_witness:
  "length_col round_cell = diameter round_cell
   \<and> map shape (cell_shapes round_cell) =
        [FancyBboxPatch (0, - 2) 0 4, Circle (0, 0) 2, Circle (0, 0) 2]
   \<and> transform_point (cell_transform round_cell) (0, 0) = (1, 2)
   \<and> capsule_covers round_cell (1, 1)"
  using equal_length_and_diameter_gives_disc [of round_cell 1 1]
  by (simp add: round_cell_def agent_def)

lemma spans_of_cell:
  "map (\<lambda>q. span_x (shape q)) (cell_shapes c) =
     [(min (- (length_col c - diameter c) / 2) ((length_col c - diameter c) / 2),
       max (- (length_col c - diameter c) / 2) ((length_col c - diameter c) / 2)),
      (- (length_col c - diameter c) / 2 - \<bar>diameter c\<bar> / 2,
       - (length_col c - diameter c) / 2 + \<bar>diameter c\<bar> / 2),
      ((length_col c - diameter c) / 2 - \<bar>diameter c\<bar> / 2,
       (length_col c - diameter c) / 2 + \<bar>diameter c\<bar> / 2)]"
  "map (\<lambda>q. span_y (shape q)) (cell_shapes c) =
     [(min (- diameter c / 2) (diameter c / 2), max (- diameter c / 2) (diameter c / 2)),
      (- \<bar>diameter c\<bar> / 2, \<bar>diameter c\<bar> / 2),
      (- \<bar>diameter c\<bar> / 2, \<bar>diameter c\<bar> / 2)]"
proof -
  have x: "map (\<lambda>q. span_x (shape q)) (cell_shapes c) = map span_x (map shape (cell_shapes c))"
    and y: "map (\<lambda>q. span_y (shape q)) (cell_shapes c) = map span_y (map shape (cell_shapes c))"
    by simp_all
  show "map (\<lambda>q. span_x (shape q)) (cell_shapes c) =
     [(min (- (length_col c - diameter c) / 2) ((length_col c - diameter c) / 2),
       max (- (length_col c - diameter c) / 2) ((length_col c - diameter c) / 2)),
      (- (length_col c - diameter c) / 2 - \<bar>diameter c\<bar> / 2,
       - (length_col c - diameter c) / 2 + \<bar>diameter c\<bar> / 2),
      ((length_col c - diameter c) / 2 - \<bar>diameter c\<bar> / 2,
       (length_col c - diameter c) / 2 + \<bar>diameter c\<bar> / 2)]"
    unfolding x shapes_of_cell by (simp add: field_simps)
  show "map (\<lambda>q. span_y (shape q)) (cell_shapes c) =
     [(min (- diameter c / 2) (diameter c / 2), max (- diameter c / 2) (diameter c / 2)),
      (- \<bar>diameter c\<bar> / 2, \<bar>diameter c\<bar> / 2),
      (- \<bar>diameter c\<bar> / 2, \<bar>diameter c\<bar> / 2)]"
    unfolding y shapes_of_cell by (simp add: field_simps)
qed

lemma end_to_end_length_eq:
  "end_to_end_length (cell_shapes c) =
     max (max (max (- (length_col c - diameter c) / 2) ((length_col c - diameter c) / 2))
              (- (length_col c - diameter c) / 2 + \<bar>diameter c\<bar> / 2))
         ((length_col c - diameter c) / 2 + \<bar>diameter c\<bar> / 2)
     - min (min (min (- (length_col c - diameter c) / 2) ((length_col c - diameter c) / 2))
                (- (length_col c - diameter c) / 2 - \<bar>diameter c\<bar> / 2))
           ((length_col c - diameter c) / 2 - \<bar>diameter c\<bar> / 2)"
proof -
  have "end_to_end_length (cell_shapes c) =
     col_max (map snd (map (\<lambda>q. span_x (shape q)) (cell_shapes c)))
     - col_min (map fst (map (\<lambda>q. span_x (shape q)) (cell_shapes c)))"
    by (simp add: end_to_end_length_def comp_def)
  then show ?thesis
    unfolding spans_of_cell by (simp add: max.commute min.commute)
qed

lemma overall_width_eq:
  "overall_width (cell_shapes c) =
     max (max (max (- diameter c / 2) (diameter c / 2)) (\<bar>diameter c\<bar> / 2)) (\<bar>diameter c\<bar> / 2)
     - min (min (min (- diameter c / 2) (diameter c / 2)) (- \<bar>diameter c\<bar> / 2))
           (- \<bar>diameter c\<bar> / 2)"
proof -
  have "overall_width (cell_shapes c) =
     col_max (map snd (map (\<lambda>q. span_y (shape q)) (cell_shapes c)))
     - col_min (map fst (map (\<lambda>q. span_y (shape q)) (cell_shapes c)))"
    by (simp add: overall_width_def comp_def)
  then show ?thesis
    unfolding spans_of_cell by (simp add: max.commute min.commute)
qed

lemma measures_of_capsule:
  assumes "0 \<le> diameter c" "diameter c \<le> length_col c"
  shows "end_to_end_length (cell_shapes c) = length_col c"
    and "overall_width (cell_shapes c) = diameter c"
proof -
  show "end_to_end_length (cell_shapes c) = length_col c"
    using assms unfolding end_to_end_length_eq by (auto simp add: max_def min_def abs_of_nonneg field_simps)
  show "overall_width (cell_shapes c) = diameter c"
    using assms unfolding overall_width_eq by (auto simp add: max_def min_def abs_of_nonneg field_simps)
qed

lemma stadium_X:
  fixes a r x :: real
  assumes a: "0 \<le> a" and r: "0 \<le> r"
  shows "(\<exists>v. (- a \<le> x \<and> x \<le> a \<and> - r \<le> v \<and> v \<le> r)
              \<or> (x + a)\<^sup>2 + v\<^sup>2 \<le> r\<^sup>2 \<or> (x - a)\<^sup>2 + v\<^sup>2 \<le> r\<^sup>2)
         \<longleftrightarrow> - (a + r) \<le> x \<and> x \<le> a + r"
proof
  assume "\<exists>v. (- a \<le> x \<and> x \<le> a \<and> - r \<le> v \<and> v \<le> r)
              \<or> (x + a)\<^sup>2 + v\<^sup>2 \<le> r\<^sup>2 \<or> (x - a)\<^sup>2 + v\<^sup>2 \<le> r\<^sup>2"
  then obtain v where "(- a \<le> x \<and> x \<le> a \<and> - r \<le> v \<and> v \<le> r)
              \<or> (x + a)\<^sup>2 + v\<^sup>2 \<le> r\<^sup>2 \<or> (x - a)\<^sup>2 + v\<^sup>2 \<le> r\<^sup>2" ..
  then consider (body) "- a \<le> x" "x \<le> a"
    | (left) "(x + a)\<^sup>2 + v\<^sup>2 \<le> r\<^sup>2" | (right) "(x - a)\<^sup>2 + v\<^sup>2 \<le> r\<^sup>2"
    by blast
  then show "- (a + r) \<le> x \<and> x \<le> a + r"
  proof cases
    case body
    with r show ?thesis by simp
  next
    case left
    then have "(x + a)\<^sup>2 \<le> r\<^sup>2" using zero_le_power2 [of v] by linarith
    then have "\<bar>x + a\<bar> \<le> \<bar>r\<bar>" by (simp only: abs_le_square_iff)
    with a r show ?thesis by linarith
  next
    case right
    then have "(x - a)\<^sup>2 \<le> r\<^sup>2" using zero_le_power2 [of v] by linarith
    then have "\<bar>x - a\<bar> \<le> \<bar>r\<bar>" by (simp only: abs_le_square_iff)
    with a r show ?thesis by linarith
  qed
next
  assume x: "- (a + r) \<le> x \<and> x \<le> a + r"
  have "(- a \<le> x \<and> x \<le> a \<and> - r \<le> 0 \<and> 0 \<le> r)
              \<or> (x + a)\<^sup>2 + 0\<^sup>2 \<le> r\<^sup>2 \<or> (x - a)\<^sup>2 + 0\<^sup>2 \<le> r\<^sup>2"
  proof (cases "x < - a")
    case True
    with x r have "\<bar>x + a\<bar> \<le> \<bar>r\<bar>" by linarith
    then have "(x + a)\<^sup>2 \<le> r\<^sup>2" by (simp only: abs_le_square_iff)
    then show ?thesis by simp
  next
    case False
    note nl = this
    show ?thesis
    proof (cases "a < x")
      case True
      with x r have "\<bar>x - a\<bar> \<le> \<bar>r\<bar>" by linarith
      then have "(x - a)\<^sup>2 \<le> r\<^sup>2" by (simp only: abs_le_square_iff)
      then show ?thesis by simp
    next
      case False
      with nl r show ?thesis by simp
    qed
  qed
  then show "\<exists>v. (- a \<le> x \<and> x \<le> a \<and> - r \<le> v \<and> v \<le> r)
              \<or> (x + a)\<^sup>2 + v\<^sup>2 \<le> r\<^sup>2 \<or> (x - a)\<^sup>2 + v\<^sup>2 \<le> r\<^sup>2" ..
qed

lemma stadium_Y:
  fixes a r y :: real
  assumes a: "0 \<le> a" and r: "0 \<le> r"
  shows "(\<exists>u. (- a \<le> u \<and> u \<le> a \<and> - r \<le> y \<and> y \<le> r)
              \<or> (u + a)\<^sup>2 + y\<^sup>2 \<le> r\<^sup>2 \<or> (u - a)\<^sup>2 + y\<^sup>2 \<le> r\<^sup>2)
         \<longleftrightarrow> - r \<le> y \<and> y \<le> r"
proof
  assume "\<exists>u. (- a \<le> u \<and> u \<le> a \<and> - r \<le> y \<and> y \<le> r)
              \<or> (u + a)\<^sup>2 + y\<^sup>2 \<le> r\<^sup>2 \<or> (u - a)\<^sup>2 + y\<^sup>2 \<le> r\<^sup>2"
  then obtain u where "(- a \<le> u \<and> u \<le> a \<and> - r \<le> y \<and> y \<le> r)
              \<or> (u + a)\<^sup>2 + y\<^sup>2 \<le> r\<^sup>2 \<or> (u - a)\<^sup>2 + y\<^sup>2 \<le> r\<^sup>2" ..
  then consider (body) "- r \<le> y" "y \<le> r"
    | (left) "(u + a)\<^sup>2 + y\<^sup>2 \<le> r\<^sup>2" | (right) "(u - a)\<^sup>2 + y\<^sup>2 \<le> r\<^sup>2"
    by blast
  then show "- r \<le> y \<and> y \<le> r"
  proof cases
    case body
    then show ?thesis by simp
  next
    case left
    then have "y\<^sup>2 \<le> r\<^sup>2" using zero_le_power2 [of "u + a"] by linarith
    then have "\<bar>y\<bar> \<le> \<bar>r\<bar>" by (simp only: abs_le_square_iff)
    with r show ?thesis by linarith
  next
    case right
    then have "y\<^sup>2 \<le> r\<^sup>2" using zero_le_power2 [of "u - a"] by linarith
    then have "\<bar>y\<bar> \<le> \<bar>r\<bar>" by (simp only: abs_le_square_iff)
    with r show ?thesis by linarith
  qed
next
  assume "- r \<le> y \<and> y \<le> r"
  with a have "(- a \<le> 0 \<and> 0 \<le> a \<and> - r \<le> y \<and> y \<le> r)
              \<or> (0 + a)\<^sup>2 + y\<^sup>2 \<le> r\<^sup>2 \<or> (0 - a)\<^sup>2 + y\<^sup>2 \<le> r\<^sup>2"
    by simp
  then show "\<exists>u. (- a \<le> u \<and> u \<le> a \<and> - r \<le> y \<and> y \<le> r)
              \<or> (u + a)\<^sup>2 + y\<^sup>2 \<le> r\<^sup>2 \<or> (u - a)\<^sup>2 + y\<^sup>2 \<le> r\<^sup>2" ..
qed

lemma capsule_covers_stadium:
  assumes d: "0 \<le> diameter c" and l: "diameter c \<le> length_col c"
  shows "capsule_covers c (x, y) \<longleftrightarrow>
     (- ((length_col c - diameter c) / 2) \<le> x \<and> x \<le> (length_col c - diameter c) / 2
        \<and> - (diameter c / 2) \<le> y \<and> y \<le> diameter c / 2)
     \<or> (x + (length_col c - diameter c) / 2)\<^sup>2 + y\<^sup>2 \<le> (diameter c / 2)\<^sup>2
     \<or> (x - (length_col c - diameter c) / 2)\<^sup>2 + y\<^sup>2 \<le> (diameter c / 2)\<^sup>2"
proof -
  have e: "- (length_col c - diameter c) / 2 + (length_col c - diameter c)
             = (length_col c - diameter c) / 2"
          "- diameter c / 2 + diameter c = diameter c / 2"
          "x - - (length_col c - diameter c) / 2 = x + (length_col c - diameter c) / 2"
          "y - 0 = y"
    by (simp_all add: field_simps)
  have m: "min (- (length_col c - diameter c) / 2) ((length_col c - diameter c) / 2)
             = - ((length_col c - diameter c) / 2)"
          "max (- (length_col c - diameter c) / 2) ((length_col c - diameter c) / 2)
             = (length_col c - diameter c) / 2"
          "min (- diameter c / 2) (diameter c / 2) = - (diameter c / 2)"
          "max (- diameter c / 2) (diameter c / 2) = diameter c / 2"
    using d l by (auto simp add: min_def max_def field_simps)
  show ?thesis
    unfolding capsule_covers_iff covers.simps e m by simp
qed

lemma capsule_projection_X:
  assumes d: "0 \<le> diameter c" and l: "diameter c \<le> length_col c"
  shows "(\<exists>v. capsule_covers c (x, v)) \<longleftrightarrow> - (length_col c / 2) \<le> x \<and> x \<le> length_col c / 2"
proof -
  have s: "(length_col c - diameter c) / 2 + diameter c / 2 = length_col c / 2"
    by (simp add: field_simps)
  have "0 \<le> (length_col c - diameter c) / 2" "0 \<le> diameter c / 2"
    using d l by simp_all
  from stadium_X [OF this, of x] show ?thesis
    unfolding capsule_covers_stadium [OF d l] s .
qed

lemma capsule_projection_Y:
  assumes d: "0 \<le> diameter c" and l: "diameter c \<le> length_col c"
  shows "(\<exists>u. capsule_covers c (u, y)) \<longleftrightarrow> - (diameter c / 2) \<le> y \<and> y \<le> diameter c / 2"
proof -
  have "0 \<le> (length_col c - diameter c) / 2" "0 \<le> diameter c / 2"
    using d l by simp_all
  from stadium_Y [OF this, of y] show ?thesis
    unfolding capsule_covers_stadium [OF d l] .
qed

text \<open>
  Claim C2, as amended. For every cell the body is the box of length \<open>length - diameter\<close>
  and width \<open>diameter\<close>, and the caps are discs of radius half the diameter whose centres
  are the midpoints of the two short edges of the box. When \<open>0 \<le> diameter \<le> length\<close>,
  the capsule measures \<open>length\<close> from end to end and \<open>diameter\<close> across: the points it
  covers have exactly the first coordinates from \<open>- length / 2\<close> to \<open>length / 2\<close> and
  exactly the second coordinates from \<open>- diameter / 2\<close> to \<open>diameter / 2\<close>.
\<close>

theorem capsule_length_and_width:
  "map shape (cell_shapes c) =
     [FancyBboxPatch (- (length_col c - diameter c) / 2, - diameter c / 2)
        (length_col c - diameter c) (diameter c),
      Circle (- (length_col c - diameter c) / 2, 0) (diameter c / 2),
      Circle ((length_col c - diameter c) / 2, 0) (diameter c / 2)]
   \<and> (0 \<le> diameter c \<and> diameter c \<le> length_col c \<longrightarrow>
        end_to_end_length (cell_shapes c) = length_col c
        \<and> overall_width (cell_shapes c) = diameter c
        \<and> ((\<exists>v. capsule_covers c (x, v)) \<longleftrightarrow> - (length_col c / 2) \<le> x \<and> x \<le> length_col c / 2)
        \<and> ((\<exists>u. capsule_covers c (u, y)) \<longleftrightarrow> - (diameter c / 2) \<le> y \<and> y \<le> diameter c / 2))"
  using shapes_of_cell [of c] measures_of_capsule [of c]
    capsule_projection_X [of c x] capsule_projection_Y [of c y]
  by blast

theorem capsule_length_and_width_witness:
  "0 \<le> diameter rod_cell \<and> diameter rod_cell \<le> length_col rod_cell
   \<and> map shape (cell_shapes rod_cell) =
       [FancyBboxPatch (- 1, - (1 / 2)) 2 1, Circle (- 1, 0) (1 / 2), Circle (1, 0) (1 / 2)]
   \<and> end_to_end_length (cell_shapes rod_cell) = 3
   \<and> overall_width (cell_shapes rod_cell) = 1"
  using capsule_length_and_width [of rod_cell 0 0]
  by (simp add: rod_cell_def agent_def)

text \<open>
  Claim C2 as stated fails for a cell shorter than it is wide: with diameter 2 and
  length 1 the caps change sides, the capsule measures 3 from end to end, and it covers
  the point \<open>(3/2, 0)\<close>, which is further than half the length from the centre.
\<close>

theorem short_cell_is_longer_than_its_length:
  "length_col short_cell = 1 \<and> end_to_end_length (cell_shapes short_cell) = 3
   \<and> end_to_end_length (cell_shapes short_cell) \<noteq> length_col short_cell
   \<and> capsule_covers short_cell (3 / 2, 0)"
proof -
  have "end_to_end_length (cell_shapes short_cell) = 3"
    unfolding end_to_end_length_eq by (simp add: short_cell_def agent_def)
  moreover have "capsule_covers short_cell (3 / 2, 0)"
    unfolding capsule_covers_iff by (simp add: short_cell_def agent_def power2_eq_square)
  ultimately show ?thesis by (simp add: short_cell_def agent_def)
qed

section \<open>Properties of the viewport\<close>










section \<open>Properties of the cleaning\<close>

lemma astype_int_range: "- (2 ^ 63) \<le> astype_int x \<and> astype_int x < 2 ^ 63"
  by (simp add: astype_int_def Let_def)

lemma astype_int_inside:
  "- (2 ^ 63) \<le> towards_zero x \<Longrightarrow> towards_zero x < 2 ^ 63 \<Longrightarrow> astype_int x = towards_zero x"
  by (simp add: astype_int_def Let_def)

lemma astype_int_outside: "astype_int (2 ^ 63) = - (2 ^ 63)" "astype_int (10 ^ 30) = - (2 ^ 63)"
  by (simp_all add: astype_int_def towards_zero_def Let_def)

lemma astype_int_samples: "astype_int 0 = 0" "astype_int 1 = 1" "astype_int 7 = 7"
  by (simp_all add: astype_int_def towards_zero_def Let_def)

lemma convert_tick_Some:
  assumes "convert_tick num raw = Some r"
  shows "(\<exists>t. to_numeric num (tick_num raw) = Some t \<and> tick_num r = astype_int t)
         \<and> agent_type r = agent_type raw
         \<and> pos_X r = pos_X raw \<and> pos_Y r = pos_Y raw
         \<and> diameter r = diameter raw \<and> length_col r = length_col raw
         \<and> orientation_X r = orientation_X raw \<and> orientation_Y r = orientation_Y raw
         \<and> extra r = extra raw"
  using assms by (auto simp add: convert_tick_def split: option.splits)

lemma convert_numeric_Some:
  assumes "convert_numeric num r = Some v"
  shows "tick_num v = tick_num r \<and> agent_type v = agent_type r
         \<and> to_numeric num (pos_X r) = Some (pos_X v)
         \<and> to_numeric num (pos_Y r) = Some (pos_Y v)
         \<and> to_numeric num (diameter r) = Some (diameter v)
         \<and> to_numeric num (length_col r) = Some (length_col v)
         \<and> to_numeric num (orientation_X r) = Some (orientation_X v)
         \<and> to_numeric num (orientation_Y r) = Some (orientation_Y v)"
  using assms by (auto simp add: convert_numeric_def split: option.splits)

lemma load_data_row:
  assumes "r \<in> set (load_data num df)"
  shows "\<exists>raw \<in> set df. NaN \<notin> set (fields_of raw) \<and> \<not> list_ex contains_hash (fields_of raw)
           \<and> convert_tick num raw = Some r"
  using assms
  by (auto simp add: load_data_def List.map_filter_def drop_separators_def dropna_def)

lemma load_data_video_eq:
  "load_data_video num df = List.map_filter (convert_numeric num) (load_data num df)"
  by (simp add: load_data_video_def load_data_def)

lemma load_data_video_row:
  assumes "v \<in> set (load_data_video num df)"
  shows "\<exists>r \<in> set (load_data num df). convert_numeric num r = Some v"
  using assms by (auto simp add: load_data_video_eq List.map_filter_def)

text \<open>
  Claim C4, as amended. A row that survives the cleaning of the video script comes from
  an input row without a missing value and without the separator character in any cell,
  whose \<^verbatim>\<open>tick_num\<close> was coerced to a number, and whose six measures were all coerced to
  the numbers the row holds. The tick of the row is a 64-bit integer, and it is that
  number with the fraction cut off whenever this fits into 64 bits. A row that survives
  the cleaning of the viewer comes from such an input row, with the same tick. Neither
  cleaning looks at the sign of the diameter.
\<close>

theorem survivors_of_cleaning:
  "(v \<in> set (load_data_video num df) \<longrightarrow>
      (\<exists>raw \<in> set df.
         NaN \<notin> set (fields_of raw) \<and> \<not> list_ex contains_hash (fields_of raw)
         \<and> (\<exists>t. to_numeric num (tick_num raw) = Some t
               \<and> - (2 ^ 63) \<le> tick_num v \<and> tick_num v < 2 ^ 63
               \<and> (- (2 ^ 63) \<le> towards_zero t \<and> towards_zero t < 2 ^ 63 \<longrightarrow>
                     tick_num v = towards_zero t))
         \<and> to_numeric num (pos_X raw) = Some (pos_X v)
         \<and> to_numeric num (pos_Y raw) = Some (pos_Y v)
         \<and> to_numeric num (diameter raw) = Some (diameter v)
         \<and> to_numeric num (length_col raw) = Some (length_col v)
         \<and> to_numeric num (orientation_X raw) = Some (orientation_X v)
         \<and> to_numeric num (orientation_Y raw) = Some (orientation_Y v)))
   \<and> (r \<in> set (load_data num df) \<longrightarrow>
      (\<exists>raw \<in> set df.
         NaN \<notin> set (fields_of raw) \<and> \<not> list_ex contains_hash (fields_of raw)
         \<and> (\<exists>t. to_numeric num (tick_num raw) = Some t
               \<and> - (2 ^ 63) \<le> tick_num r \<and> tick_num r < 2 ^ 63
               \<and> (- (2 ^ 63) \<le> towards_zero t \<and> towards_zero t < 2 ^ 63 \<longrightarrow>
                     tick_num r = towards_zero t))))"
proof (intro conjI impI)
  assume "v \<in> set (load_data_video num df)"
  then obtain r' where r': "r' \<in> set (load_data num df)" and v: "convert_numeric num r' = Some v"
    using load_data_video_row by blast
  from r' obtain raw where raw: "raw \<in> set df" "NaN \<notin> set (fields_of raw)"
      "\<not> list_ex contains_hash (fields_of raw)" and c: "convert_tick num raw = Some r'"
    using load_data_row by blast
  from convert_tick_Some [OF c] convert_numeric_Some [OF v] raw
    astype_int_range astype_int_inside
  show "\<exists>raw \<in> set df.
         NaN \<notin> set (fields_of raw) \<and> \<not> list_ex contains_hash (fields_of raw)
         \<and> (\<exists>t. to_numeric num (tick_num raw) = Some t
               \<and> - (2 ^ 63) \<le> tick_num v \<and> tick_num v < 2 ^ 63
               \<and> (- (2 ^ 63) \<le> towards_zero t \<and> towards_zero t < 2 ^ 63 \<longrightarrow>
                     tick_num v = towards_zero t))
         \<and> to_numeric num (pos_X raw) = Some (pos_X v)
         \<and> to_numeric num (pos_Y raw) = Some (pos_Y v)
         \<and> to_numeric num (diameter raw) = Some (diameter v)
         \<and> to_numeric num (length_col raw) = Some (length_col v)
         \<and> to_numeric num (orientation_X raw) = Some (orientation_X v)
         \<and> to_numeric num (orientation_Y raw) = Some (orientation_Y v)"
    by (intro bexI [of _ raw]) auto
next
  assume "r \<in> set (load_data num df)"
  then obtain raw where raw: "raw \<in> set df" "NaN \<notin> set (fields_of raw)"
      "\<not> list_ex contains_hash (fields_of raw)" and c: "convert_tick num raw = Some r"
    using load_data_row by blast
  from convert_tick_Some [OF c] raw astype_int_range astype_int_inside
  show "\<exists>raw \<in> set df.
         NaN \<notin> set (fields_of raw) \<and> \<not> list_ex contains_hash (fields_of raw)
         \<and> (\<exists>t. to_numeric num (tick_num raw) = Some t
               \<and> - (2 ^ 63) \<le> tick_num r \<and> tick_num r < 2 ^ 63
               \<and> (- (2 ^ 63) \<le> towards_zero t \<and> towards_zero t < 2 ^ 63 \<longrightarrow>
                     tick_num r = towards_zero t))"
    by (intro bexI [of _ raw]) auto
qed

lemma decimal_samples:
  "decimal ''0'' = Some 0" "decimal ''1'' = Some 1" "decimal ''2'' = Some 2"
  "decimal ''3'' = Some 3" "decimal ''5'' = Some 5" "decimal ''7'' = Some 7"
  "decimal ''abc'' = None" "decimal ''#####'' = None"
  by (simp_all add: decimal_def digit_def)

lemma load_flat_row:
  "load_data_video decimal [flat_row] = [agent 7 ''eps'' 1 2 0 0 0 0]"
  by (simp add: load_data_video_def dropna_def drop_separators_def fields_of_def flat_row_def
      agent_def List.map_filter_simps convert_tick_def convert_numeric_def decimal_samples
      astype_int_samples)

lemma load_two_ticks_csv: "load_data_video decimal two_ticks_csv = two_ticks"
  by (simp add: load_data_video_def dropna_def drop_separators_def fields_of_def two_ticks_csv_def
      separator_row_def two_ticks_def
      agent_def List.map_filter_simps convert_tick_def convert_numeric_def decimal_samples
      astype_int_samples)

text \<open>
  The particle of diameter 0 at tick 7 survives both cleanings, from a row without
  missing values.
\<close>

theorem survivors_of_cleaning_witness:
  "agent 7 ''eps'' 1 2 0 0 0 0 \<in> set (load_data_video decimal [flat_row])
   \<and> agent 7 ''eps'' (Str ''1'') (Str ''2'') (Str ''0'') (Str ''0'') (Str ''0'') (Str ''0'')
       \<in> set (load_data decimal [flat_row])
   \<and> to_numeric decimal (diameter flat_row) = Some 0
   \<and> to_numeric decimal (tick_num flat_row) = Some 7
   \<and> - (2 ^ 63) \<le> towards_zero 7 \<and> towards_zero 7 < 2 ^ 63
   \<and> NaN \<notin> set (fields_of flat_row)"
  using survivors_of_cleaning [of "agent 7 ''eps'' 1 2 0 0 0 0" decimal "[flat_row]"
      "agent 7 ''eps'' (Str ''1'') (Str ''2'') (Str ''0'') (Str ''0'') (Str ''0'') (Str ''0'')"]
  by (simp add: load_flat_row)
    (simp add: load_data_def dropna_def drop_separators_def fields_of_def flat_row_def
      agent_def List.map_filter_simps convert_tick_def decimal_samples astype_int_samples
      towards_zero_def)

text \<open>
  Claim C4 as stated fails: the row of the particle with diameter 0 survives the cleaning
  of the video script, and its diameter is not positive.
\<close>

theorem diameter_zero_survives:
  "load_data_video decimal [flat_row] = [agent 7 ''eps'' 1 2 0 0 0 0]
   \<and> \<not> 0 < diameter (agent 7 ''eps'' 1 2 0 0 0 0 :: (int, real) row)"
  by (simp add: load_flat_row) (simp add: agent_def)

text \<open>
  Claim C10 fails on the code. For the row whose \<^verbatim>\<open>pos_X\<close> is the text \<^verbatim>\<open>abc\<close>, the
  cleaning of the video script leaves nothing, and the cleaning of the viewer keeps the
  row with the text in it: \<^verbatim>\<open>load_data\<close> has neither the loop over \<^verbatim>\<open>numeric_columns\<close> nor
  the \<^verbatim>\<open>dropna\<close> on them.
\<close>

theorem loaders_disagree_on_garbled_row:
  "load_data_video decimal [garbled_row] = []
   \<and> load_data decimal [garbled_row] =
       [agent 0 ''cell'' (Str ''abc'') (Str ''0'') (Str ''1'') (Str ''3'') (Str ''1'') (Str ''0'')]"
  by (simp add: load_data_video_def load_data_def dropna_def drop_separators_def fields_of_def
      garbled_row_def agent_def List.map_filter_simps convert_tick_def convert_numeric_def
      decimal_samples astype_int_samples)

section \<open>Properties of the video script\<close>

lemma animate_in_range:
  assumes "n < length steps"
  shows "animate df steps n =
           Inr \<lparr>title_tick = steps ! n,
                eps_patches = map eps_circle
                  (filter (\<lambda>r. tick_num r = steps ! n \<and> agent_type r = Str ''eps'') df),
                cell_patches = concat (map cell_shapes
                  (filter (\<lambda>r. tick_num r = steps ! n \<and> agent_type r = Str ''cell'') df))\<rparr>"
  using assms by (simp add: animate_def Let_def conj_commute)

lemma run_frames_all:
  assumes "\<And>n. n \<in> set ns \<Longrightarrow> f n = Inr (g n)"
  shows "run_frames f ns = Inr (map g ns)"
  using assms by (induction ns) simp_all

lemma FuncAnimation_eq:
  "FuncAnimation df steps =
     Inr (map (\<lambda>n. \<lparr>title_tick = steps ! n,
                eps_patches = map eps_circle
                  (filter (\<lambda>r. tick_num r = steps ! n \<and> agent_type r = Str ''eps'') df),
                cell_patches = concat (map cell_shapes
                  (filter (\<lambda>r. tick_num r = steps ! n \<and> agent_type r = Str ''cell'') df))\<rparr>)
            [0 ..< length steps])"
  unfolding FuncAnimation_def
  by (rule run_frames_all) (simp add: animate_in_range)

lemma length_time_steps: "length (time_steps df) = card (tick_num ` set df)"
  by (simp add: time_steps_eq)

text \<open>
  Claim C7. The animation runs \<^verbatim>\<open>animate\<close> once for each distinct tick and no more; the
  ticks of the frames increase strictly; and for every index \<open>N\<close> below the number of
  distinct ticks, frame \<open>N\<close> is titled with the tick at place \<open>N\<close> of the ascending list of
  the distinct ticks and holds the discs and the capsules of exactly the rows of that
  tick.
\<close>

theorem frame_N_shows_Nth_smallest_tick:
  assumes "N < card (tick_num ` set df)"
  shows "\<exists>frs. FuncAnimation df (time_steps df) = Inr frs
           \<and> length frs = card (tick_num ` set df)
           \<and> sorted_wrt (<) (map title_tick frs)
           \<and> frs ! N =
               \<lparr>title_tick = sorted_list_of_set (tick_num ` set df) ! N,
                eps_patches = map eps_circle
                  (filter (\<lambda>r. tick_num r = sorted_list_of_set (tick_num ` set df) ! N
                               \<and> agent_type r = Str ''eps'') df),
                cell_patches = concat (map cell_shapes
                  (filter (\<lambda>r. tick_num r = sorted_list_of_set (tick_num ` set df) ! N
                               \<and> agent_type r = Str ''cell'') df))\<rparr>"
proof -
  let ?steps = "time_steps df"
  let ?g = "\<lambda>n. \<lparr>title_tick = ?steps ! n,
                eps_patches = map eps_circle
                  (filter (\<lambda>r. tick_num r = ?steps ! n \<and> agent_type r = Str ''eps'') df),
                cell_patches = concat (map cell_shapes
                  (filter (\<lambda>r. tick_num r = ?steps ! n \<and> agent_type r = Str ''cell'') df))\<rparr>"
  let ?frs = "map ?g [0 ..< length ?steps]"
  have N: "N < length ?steps"
    using assms by (simp add: length_time_steps)
  have run: "FuncAnimation df ?steps = Inr ?frs"
    by (rule FuncAnimation_eq)
  have len: "length ?frs = card (tick_num ` set df)"
    by (simp add: length_time_steps)
  have "map title_tick ?frs = map (\<lambda>n. ?steps ! n) [0 ..< length ?steps]"
    by simp
  also have "\<dots> = ?steps"
    by (rule map_nth)
  finally have titles: "map title_tick ?frs = ?steps" .
  have "sorted_wrt (<) ?steps"
    unfolding time_steps_eq by (rule strict_sorted_list_of_set)
  then have inc: "sorted_wrt (<) (map title_tick ?frs)"
    by (simp only: titles)
  have "?frs ! N = ?g N"
    using N by simp
  then have nth: "?frs ! N =
               \<lparr>title_tick = sorted_list_of_set (tick_num ` set df) ! N,
                eps_patches = map eps_circle
                  (filter (\<lambda>r. tick_num r = sorted_list_of_set (tick_num ` set df) ! N
                               \<and> agent_type r = Str ''eps'') df),
                cell_patches = concat (map cell_shapes
                  (filter (\<lambda>r. tick_num r = sorted_list_of_set (tick_num ` set df) ! N
                               \<and> agent_type r = Str ''cell'') df))\<rparr>"
    by (simp only: time_steps_eq)
  from run len inc nth show ?thesis by blast
qed

lemma card_two_ticks: "card (tick_num ` set two_ticks) = 2"
  using length_time_steps [of two_ticks] by (simp add: time_steps_two_ticks)

text \<open>
  On the scenario, whose rows come in descending order of tick, frame 1 of two shows
  tick 1.
\<close>

theorem frame_N_shows_Nth_smallest_tick_witness:
  "1 < card (tick_num ` set two_ticks)
   \<and> (\<exists>frs. FuncAnimation two_ticks (time_steps two_ticks) = Inr frs
         \<and> length frs = 2 \<and> title_tick (frs ! 1) = 1)"
proof -
  have h: "1 < card (tick_num ` set two_ticks)"
    by (simp add: card_two_ticks)
  have s: "sorted_list_of_set (tick_num ` set two_ticks) ! Suc 0 = 1"
    using time_steps_two_ticks by (simp add: time_steps_eq)
  from frame_N_shows_Nth_smallest_tick [OF h] obtain frs where
    "FuncAnimation two_ticks (time_steps two_ticks) = Inr frs"
    "length frs = card (tick_num ` set two_ticks)"
    "title_tick (frs ! 1) = sorted_list_of_set (tick_num ` set two_ticks) ! 1"
    by force
  then show ?thesis
    using h by (auto simp add: card_two_ticks s)
qed

text \<open>
  Claim C6 fails on the code. A file that holds only a separator line, or no line at all,
  leaves no row and no tick; the bounds block would then give the default box with the
  warning, but the video script never gets there: printing the range of the ticks at
  line 46 raises \<^verbatim>\<open>IndexError\<close>.
\<close>

theorem empty_dataset_stops_the_video_script:
  "load_data_video decimal [separator_row] = []
   \<and> time_steps (load_data_video decimal [separator_row]) = []
   \<and> setup_plot_bounds [] [] =
       (\<lparr>plot_min_x = 0, plot_max_x = 100, plot_min_y = 0, plot_max_y = 100\<rparr>,
        Warning_no_time_steps)
   \<and> video_visualization decimal True True [separator_row] = Inl IndexError
   \<and> video_visualization decimal True True [] = Inl IndexError"
proof -
  have l: "load_data_video decimal [separator_row] = []"
    by (simp add: load_data_video_def dropna_def fields_of_def separator_row_def
        drop_separators_def List.map_filter_simps)
  have l0: "load_data_video decimal [] = []"
    by (simp add: load_data_video_def dropna_def drop_separators_def List.map_filter_simps)
  have t: "time_steps ([] :: (int, real) row list) = []"
    by (simp add: time_steps_def unique_def)
  show ?thesis
    by (simp add: video_visualization_def l l0 t setup_plot_bounds_def)
qed

text \<open>
  Claim C9 fails on the code at its last step. When the ffmpeg writer fails the pillow
  writer is tried, and each step is printed; when both fail the script prints that it
  shows the animation in a window and calls \<^verbatim>\<open>plt.show()\<close>, but under the backend chosen
  at line 2 nothing is shown.
\<close>

theorem no_window_after_both_writers_fail:
  "save_animation Agg False False anim =
     ([Error_saving_video, Trying_alternative_method, Error_saving_GIF,
       Showing_animation_in_window], Nothing)
   \<and> save_animation Agg False True (Inr frs) =
     ([Error_saving_video, Trying_alternative_method, Animation_saved_as_GIF], Gif frs)
   \<and> save_animation Agg True pillow_ok (Inr frs) = ([Video_saved], Mp4 frs)
   \<and> map_sum id printed (video_visualization decimal False False two_ticks_csv) =
       Inr [Found 2, Time_step_range 0 1,
            Dynamic_plot_bounds
              \<lparr>plot_min_x = - 1, plot_max_x = 11, plot_min_y = - 6, plot_max_y = 6\<rparr>,
            Creating_animation 2, Saving_video, Error_saving_video, Trying_alternative_method,
            Error_saving_GIF, Showing_animation_in_window, Animation_complete]
   \<and> map_sum id shown (video_visualization decimal False False two_ticks_csv) = Inr Nothing"
proof -
  have s: "save_animation Agg False False anim =
     ([Error_saving_video, Trying_alternative_method, Error_saving_GIF,
       Showing_animation_in_window], Nothing)" for anim
    by (simp add: save_animation_def plt_show_def split: sum.splits)
  have b: "setup_plot_bounds two_ticks [0, 1] =
      (\<lparr>plot_min_x = - 1, plot_max_x = 11, plot_min_y = - 6, plot_max_y = 6\<rparr>,
       Dynamic_plot_bounds \<lparr>plot_min_x = - 1, plot_max_x = 11, plot_min_y = - 6, plot_max_y = 6\<rparr>)"
    by (simp add: setup_plot_bounds_def two_ticks_def agent_def Let_def)
  have v: "video_visualization decimal False False two_ticks_csv =
      Inr \<lparr>printed = [Found 2, Time_step_range 0 1,
            Dynamic_plot_bounds
              \<lparr>plot_min_x = - 1, plot_max_x = 11, plot_min_y = - 6, plot_max_y = 6\<rparr>,
            Creating_animation 2, Saving_video, Error_saving_video, Trying_alternative_method,
            Error_saving_GIF, Showing_animation_in_window, Animation_complete],
           limits = \<lparr>plot_min_x = - 1, plot_max_x = 11, plot_min_y = - 6, plot_max_y = 6\<rparr>,
           shown = Nothing\<rparr>"
    by (simp add: video_visualization_def load_two_ticks_csv time_steps_two_ticks b s)
  show ?thesis
    by (simp add: s v) (simp add: save_animation_def)
qed

section \<open>The heading of a capsule\<close>

text \<open>
  \<open>arctan2 y x\<close> is the angle of the vector \<open>(x, y)\<close>: its cosine and sine are the
  coordinates of the vector scaled to length 1. So the transform of a cell turns the
  first axis of the capsule's frame into the direction of the orientation.
\<close>

lemma sqrt_one_plus_ratio:
  fixes x y :: real
  assumes "x \<noteq> 0"
  shows "sqrt (1 + (y / x)\<^sup>2) = sqrt (x\<^sup>2 + y\<^sup>2) / \<bar>x\<bar>"
proof -
  have "1 + (y / x)\<^sup>2 = (x\<^sup>2 + y\<^sup>2) / x\<^sup>2"
    using assms by (simp add: power_divide field_simps)
  then have "sqrt (1 + (y / x)\<^sup>2) = sqrt ((x\<^sup>2 + y\<^sup>2) / x\<^sup>2)"
    by simp
  also have "\<dots> = sqrt (x\<^sup>2 + y\<^sup>2) / sqrt (x\<^sup>2)"
    by (rule real_sqrt_divide)
  finally show ?thesis by simp
qed

lemma arctan_ratio:
  fixes x y :: real
  assumes "x \<noteq> 0"
  shows "cos (arctan (y / x)) = \<bar>x\<bar> / sqrt (x\<^sup>2 + y\<^sup>2)"
    and "sin (arctan (y / x)) = (y / x) * \<bar>x\<bar> / sqrt (x\<^sup>2 + y\<^sup>2)"
  using assms by (simp_all add: cos_arctan sin_arctan sqrt_one_plus_ratio)

lemma arctan2_direction:
  fixes x y :: real
  assumes "x \<noteq> 0 \<or> y \<noteq> 0"
  shows "cos (arctan2 y x) = x / sqrt (x\<^sup>2 + y\<^sup>2)"
    and "sin (arctan2 y x) = y / sqrt (x\<^sup>2 + y\<^sup>2)"
proof -
  consider (pos) "0 < x" | (neg) "x < 0" | (up) "x = 0" "0 < y" | (down) "x = 0" "y < 0"
    using assms by linarith
  then have "cos (arctan2 y x) = x / sqrt (x\<^sup>2 + y\<^sup>2) \<and> sin (arctan2 y x) = y / sqrt (x\<^sup>2 + y\<^sup>2)"
  proof cases
    case pos
    then show ?thesis
      by (simp add: arctan2_def arctan_ratio)
  next
    case neg
    then show ?thesis
      by (simp add: arctan2_def arctan_ratio)
  next
    case up
    then show ?thesis
      by (simp add: arctan2_def)
  next
    case down
    then show ?thesis
      by (simp add: arctan2_def)
  qed
  then show "cos (arctan2 y x) = x / sqrt (x\<^sup>2 + y\<^sup>2)"
    and "sin (arctan2 y x) = y / sqrt (x\<^sup>2 + y\<^sup>2)"
    by simp_all
qed

lemma capsule_heading:
  assumes "orientation_X c \<noteq> 0 \<or> orientation_Y c \<noteq> 0"
  shows "transform_point (cell_transform c) (1, 0) =
           (pos_X c + orientation_X c / sqrt ((orientation_X c)\<^sup>2 + (orientation_Y c)\<^sup>2),
            pos_Y c + orientation_Y c / sqrt ((orientation_X c)\<^sup>2 + (orientation_Y c)\<^sup>2))"
  by (simp add: transform_point_cell arctan2_direction [OF assms])

end
